theory Spec2Isabelle
  imports Main "HOL-Library.Word"
begin

unbundle bit_operations_syntax

section \<open>Data model\<close>

type_synonym bytes = "8 word list"

subsection \<open>FAT image and MBR (external collaborators, taken as parameters)\<close>

text \<open>
  \<open>UB/FAT/Image\<close> and \<open>UB/FAT/MBR\<close> are not part of the sources at hand. The disk
  handlers only call \<open>image.mbr()\<close>, \<open>mbr.isValid()\<close>, \<open>mbr.bytesPerSector()\<close>,
  \<open>image.read( cylinder, head, sector, sectors )\<close> and \<open>image.read( offset, size )\<close>, so an
  image is the record of exactly these observations; the two \<open>read\<close> overloads are
  arbitrary functions returning a byte vector.
\<close>

record MBR =
  isValid :: bool
  bytesPerSector :: "16 word"

record Image =
  mbr :: MBR
  readCHS :: "8 word \<Rightarrow> 8 word \<Rightarrow> 8 word \<Rightarrow> 8 word \<Rightarrow> bytes"
  readOffset :: "64 word \<Rightarrow> 64 word \<Rightarrow> bytes"

subsection \<open>Calls made by a handler\<close>

text \<open>
  The calls a handler makes to its collaborators, in program order: bulk reads and
  writes of guest memory through the engine, the construction of a \<open>FAT::DAP\<close> from a
  byte stream, and the two kinds of image read. The debug stream of the UI is not
  modelled.
\<close>

datatype call =
    EngineRead nat nat
  | EngineWrite nat bytes
  | DAPConstruct bytes
  | ImageReadCHS "8 word" "8 word" "8 word" "8 word"
  | ImageReadOffset "64 word" "64 word"

subsection \<open>Engine\<close>

text \<open>
  Modelled from the spec: \<open>UB::Engine\<close> (UB/Engine.cpp is not part of the sources at
  hand). The spec gives register accessors with 8- and 16-bit views of AX, BX, CX and DX,
  segment registers, the carry flag, \<open>getAddress(seg, off) = seg*16 + off\<close>, and bulk
  \<open>read(addr, len)\<close> / \<open>write(addr, bytes)\<close> on a flat byte array, where memory
  written and then read at a linear address yields the same bytes. Only the registers the
  disk handlers touch are kept. Addresses are \<open>uint64_t\<close> in the code; \<open>seg*16 + off\<close>
  is below \<open>2^20 + 2^16\<close>, so they are natural numbers here and nothing wraps. The field
  \<open>trace\<close> records the calls made so far, oldest first.
\<close>

record Engine =
  ax :: "16 word"
  bx :: "16 word"
  cx :: "16 word"
  dx :: "16 word"
  si :: "16 word"
  ds :: "16 word"
  es :: "16 word"
  cf :: bool
  memory :: "nat \<Rightarrow> 8 word"
  trace :: "call list"

definition hi8 :: "16 word \<Rightarrow> 8 word" where
  "hi8 w = ucast (drop_bit 8 w)"

definition lo8 :: "16 word \<Rightarrow> 8 word" where
  "lo8 w = ucast w"

definition with_hi8 :: "8 word \<Rightarrow> 16 word \<Rightarrow> 16 word" where
  "with_hi8 v w = push_bit 8 (ucast v) OR take_bit 8 w"

definition with_lo8 :: "8 word \<Rightarrow> 16 word \<Rightarrow> 16 word" where
  "with_lo8 v w = push_bit 8 (drop_bit 8 w) OR ucast v"

definition ah :: "Engine \<Rightarrow> 8 word" where "ah e = hi8 (ax e)"
definition al :: "Engine \<Rightarrow> 8 word" where "al e = lo8 (ax e)"
definition ch :: "Engine \<Rightarrow> 8 word" where "ch e = hi8 (cx e)"
definition cl :: "Engine \<Rightarrow> 8 word" where "cl e = lo8 (cx e)"
definition dh :: "Engine \<Rightarrow> 8 word" where "dh e = hi8 (dx e)"
definition dl :: "Engine \<Rightarrow> 8 word" where "dl e = lo8 (dx e)"

definition set_ah :: "8 word \<Rightarrow> Engine \<Rightarrow> Engine" where
  "set_ah v e = e\<lparr>ax := with_hi8 v (ax e)\<rparr>"

definition set_al :: "8 word \<Rightarrow> Engine \<Rightarrow> Engine" where
  "set_al v e = e\<lparr>ax := with_lo8 v (ax e)\<rparr>"

definition set_bx :: "16 word \<Rightarrow> Engine \<Rightarrow> Engine" where
  "set_bx v e = e\<lparr>bx := v\<rparr>"

definition set_cx :: "16 word \<Rightarrow> Engine \<Rightarrow> Engine" where
  "set_cx v e = e\<lparr>cx := v\<rparr>"

definition set_cf :: "bool \<Rightarrow> Engine \<Rightarrow> Engine" where
  "set_cf v e = e\<lparr>cf := v\<rparr>"

definition getAddress :: "16 word \<Rightarrow> 16 word \<Rightarrow> nat" where
  "getAddress segment offset = unat segment * 16 + unat offset"

definition called :: "call \<Rightarrow> Engine \<Rightarrow> Engine" where
  "called c e = e\<lparr>trace := trace e @ [c]\<rparr>"

definition engine_read :: "nat \<Rightarrow> nat \<Rightarrow> Engine \<Rightarrow> bytes \<times> Engine" where
  "engine_read address len e =
     (map (\<lambda>i. memory e (address + i)) [0..<len], called (EngineRead address len) e)"

definition store_bytes :: "nat \<Rightarrow> bytes \<Rightarrow> (nat \<Rightarrow> 8 word) \<Rightarrow> nat \<Rightarrow> 8 word" where
  "store_bytes address bs m =
     (\<lambda>a. if address \<le> a \<and> a < address + length bs then bs ! (a - address) else m a)"

definition engine_write :: "nat \<Rightarrow> bytes \<Rightarrow> Engine \<Rightarrow> Engine" where
  "engine_write address bs e =
     called (EngineWrite address bs) (e\<lparr>memory := store_bytes address bs (memory e)\<rparr>)"

subsection \<open>Disk address packet\<close>

text \<open>
  Modelled from the spec: \<open>FAT::DAP\<close> and the \<open>BinaryDataStream\<close> it is read from
  (UB/FAT/DAP.cpp and UB/BinaryDataStream.cpp are not part of the sources at hand). The
  spec gives the packed little-endian layout of 16 bytes: size (1 byte at 0), reserved
  (1 byte at 1), number of sectors (2 bytes at 2), destination offset (2 bytes at 4),
  destination segment (2 bytes at 6), logical block address (8 bytes at 8). The stream
  handed to the constructor always holds \<open>DAP_DataSize\<close> bytes, since \<open>engine_read\<close>
  returns as many bytes as were asked for.
\<close>

record DAP =
  dapSize :: "8 word"
  dapZero :: "8 word"
  numberOfSectors :: "16 word"
  destinationOffset :: "16 word"
  destinationSegment :: "16 word"
  logicalBlockAddress :: "64 word"

definition DAP_DataSize :: nat where
  "DAP_DataSize = 16"

definition le_nat :: "bytes \<Rightarrow> nat" where
  "le_nat bs = foldr (\<lambda>b acc. unat b + 256 * acc) bs 0"

definition le_field :: "nat \<Rightarrow> nat \<Rightarrow> bytes \<Rightarrow> 'a::len word" where
  "le_field off n bs = of_nat (le_nat (take n (drop off bs)))"

definition DAP_of_stream :: "bytes \<Rightarrow> DAP" where
  "DAP_of_stream bs =
     \<lparr> dapSize = le_field 0 1 bs,
       dapZero = le_field 1 1 bs,
       numberOfSectors = le_field 2 2 bs,
       destinationOffset = le_field 4 2 bs,
       destinationSegment = le_field 6 2 bs,
       logicalBlockAddress = le_field 8 8 bs \<rparr>"

subsection \<open>Machine\<close>

text \<open>
  \<open>Machine::IMPL\<close> holds the memory size, the FAT image and the engine. The handlers
  receive the machine (for \<open>bootImage()\<close> and the UI) and the engine separately, as in
  the code.
\<close>

record Machine =
  memorySize :: nat
  fat :: Image
  engine :: Engine

definition bootImage :: "Machine \<Rightarrow> Image" where
  "bootImage machine = fat machine"

section \<open>INT 13h disk services (UB::BIOS::Disk)\<close>

definition reset :: "Machine \<Rightarrow> Engine \<Rightarrow> bool \<times> Engine" where
  "reset machine e = (True, set_ah 0 (set_cf False e))"

text \<open>The code after the label \<open>error:\<close> of \<open>readSectors\<close>.\<close>

definition readSectors_error :: "Engine \<Rightarrow> bool \<times> Engine" where
  "readSectors_error e = (True, set_al 0 (set_ah 1 (set_cf True e)))"

definition readSectors :: "Machine \<Rightarrow> Engine \<Rightarrow> bool \<times> Engine" where
  "readSectors machine e =
     (let driveNumber = dl e;
          sectors = al e;
          cylinder = ch e;
          sector = cl e;
          head = dh e;
          destination = getAddress (es e) (bx e);
          image = bootImage machine
      in if driveNumber \<noteq> 0x00 then readSectors_error e
         else
           let bs = readCHS image cylinder head sector sectors;
               e1 = called (ImageReadCHS cylinder head sector sectors) e
           in if length bs = 0 then readSectors_error e1
              else (True, set_al sectors (set_ah 0 (set_cf False (engine_write destination bs e1)))))"

definition checkExtensions :: "Machine \<Rightarrow> Engine \<Rightarrow> bool \<times> Engine" where
  "checkExtensions machine e =
     (True, set_cx 7 (set_ah 0 (set_cf False (set_bx 0xAA55 e))))"

text \<open>The code after the label \<open>error:\<close> of \<open>extendedReadSectors\<close>.\<close>

definition extendedReadSectors_error :: "Engine \<Rightarrow> bool \<times> Engine" where
  "extendedReadSectors_error e = (True, set_ah 1 (set_cf True e))"

definition extendedReadSectors :: "Machine \<Rightarrow> Engine \<Rightarrow> bool \<times> Engine" where
  "extendedReadSectors machine e =
     (let driveNumber = dl e;
          dapAddress = getAddress (ds e) (si e);
          image = bootImage machine;
          mbr' = mbr image;
          (dapData, e1) = engine_read dapAddress DAP_DataSize e;
          dap = DAP_of_stream dapData;
          e2 = called (DAPConstruct dapData) e1;
          destination = getAddress (destinationSegment dap) (destinationOffset dap);
          numberOfSectors' = (ucast (numberOfSectors dap) :: 64 word);
          bytesPerSector' = (if isValid mbr' then ucast (bytesPerSector mbr') else (512 :: 64 word));
          offset = logicalBlockAddress dap * bytesPerSector';
          size' = numberOfSectors' * bytesPerSector'
      in if driveNumber \<noteq> 0x00 then extendedReadSectors_error e2
         else
           let bs = readOffset image offset size';
               e3 = called (ImageReadOffset offset size') e2
           in if length bs = 0 then extendedReadSectors_error e3
              else (True, set_ah 0 (set_cf False (engine_write destination bs e3))))"

section \<open>Interrupt dispatcher (Machine::IMPL::_setup)\<close>

text \<open>
  The per-vector handlers \<open>Interrupts::int0x05\<close> ... \<open>Interrupts::int0x1A\<close> are declared
  in UB/Interrupts.hpp, which is not part of the sources at hand: they are parameters of
  the callback. Whatever a handler returns is discarded by the callback.
\<close>

record Interrupts =
  int0x05 :: "Machine \<Rightarrow> Engine \<Rightarrow> bool \<times> Engine"
  int0x10 :: "Machine \<Rightarrow> Engine \<Rightarrow> bool \<times> Engine"
  int0x11 :: "Machine \<Rightarrow> Engine \<Rightarrow> bool \<times> Engine"
  int0x12 :: "Machine \<Rightarrow> Engine \<Rightarrow> bool \<times> Engine"
  int0x13 :: "Machine \<Rightarrow> Engine \<Rightarrow> bool \<times> Engine"
  int0x14 :: "Machine \<Rightarrow> Engine \<Rightarrow> bool \<times> Engine"
  int0x15 :: "Machine \<Rightarrow> Engine \<Rightarrow> bool \<times> Engine"
  int0x16 :: "Machine \<Rightarrow> Engine \<Rightarrow> bool \<times> Engine"
  int0x17 :: "Machine \<Rightarrow> Engine \<Rightarrow> bool \<times> Engine"
  int0x18 :: "Machine \<Rightarrow> Engine \<Rightarrow> bool \<times> Engine"
  int0x19 :: "Machine \<Rightarrow> Engine \<Rightarrow> bool \<times> Engine"
  int0x1A :: "Machine \<Rightarrow> Engine \<Rightarrow> bool \<times> Engine"

definition onInterrupt_callback ::
  "Interrupts \<Rightarrow> Machine \<Rightarrow> 32 word \<Rightarrow> Engine \<Rightarrow> bool \<times> Engine" where
  "onInterrupt_callback hs machine i e =
     (if i = 0x05 then (True, snd (int0x05 hs machine e))
      else if i = 0x10 then (True, snd (int0x10 hs machine e))
      else if i = 0x11 then (True, snd (int0x11 hs machine e))
      else if i = 0x12 then (True, snd (int0x12 hs machine e))
      else if i = 0x13 then (True, snd (int0x13 hs machine e))
      else if i = 0x14 then (True, snd (int0x14 hs machine e))
      else if i = 0x15 then (True, snd (int0x15 hs machine e))
      else if i = 0x16 then (True, snd (int0x16 hs machine e))
      else if i = 0x17 then (True, snd (int0x17 hs machine e))
      else if i = 0x18 then (True, snd (int0x18 hs machine e))
      else if i = 0x19 then (True, snd (int0x19 hs machine e))
      else if i = 0x1A then (True, snd (int0x1A hs machine e))
      else (False, e))"

section \<open>Machine::start\<close>

text \<open>
  \<open>Engine::start\<close> is not part of the sources at hand: it is a parameter, a function of
  the entry address and the engine that yields the engine's boolean and final state when
  the engine halts, and \<open>None\<close> when it never does.
\<close>

definition start ::
  "(nat \<Rightarrow> Engine \<Rightarrow> (bool \<times> Engine) option) \<Rightarrow> Machine \<Rightarrow> (bool \<times> Machine) option" where
  "start engine_start machine =
     (case engine_start 0x7C00 (engine machine) of
        None \<Rightarrow> None
      | Some (b, e') \<Rightarrow> Some (b, machine\<lparr>engine := e'\<rparr>))"

section \<open>Concrete machines and requests\<close>

text \<open>
  Three images: one that returns as many bytes as were asked for, one that returns three
  bytes whatever was asked for (a short read), and one that returns nothing and has no
  valid MBR.
\<close>

definition full_image :: Image where
  "full_image =
     \<lparr> mbr = \<lparr> isValid = True, bytesPerSector = 512 \<rparr>,
       readCHS = (\<lambda>c h s n. replicate (unat n * 512) 0x90),
       readOffset = (\<lambda>off sz. replicate (unat sz) 0x90) \<rparr>"

definition short_image :: Image where
  "short_image =
     \<lparr> mbr = \<lparr> isValid = True, bytesPerSector = 512 \<rparr>,
       readCHS = (\<lambda>c h s n. [0xDE, 0xAD, 0xBE]),
       readOffset = (\<lambda>off sz. [0xDE, 0xAD, 0xBE]) \<rparr>"

definition empty_image :: Image where
  "empty_image =
     \<lparr> mbr = \<lparr> isValid = False, bytesPerSector = 0 \<rparr>,
       readCHS = (\<lambda>c h s n. []),
       readOffset = (\<lambda>off sz. []) \<rparr>"

text \<open>
  A CHS read request: AH=02h, AL=1, CH=0, CL=2, DH=0, DL=0, ES:BX = 1000:0000, and an
  extended read request: AH=42h, AL=5, DL=0, DS:SI = 0000:0500, where guest memory holds
  a DAP with 2 sectors, destination 2000:0000 and LBA 10. The variants \<open>_drive80\<close> have
  DL=80h.
\<close>

definition chs_request :: Engine where
  "chs_request =
     \<lparr> ax = 0x0201, bx = 0x0000, cx = 0x0002, dx = 0x0000, si = 0, ds = 0, es = 0x1000,
       cf = False, memory = (\<lambda>a. 0), trace = [] \<rparr>"

definition chs_request_drive80 :: Engine where
  "chs_request_drive80 = chs_request\<lparr>dx := 0x0080\<rparr>"

definition ext_request :: Engine where
  "ext_request =
     \<lparr> ax = 0x4205, bx = 0, cx = 0, dx = 0x0000, si = 0x0500, ds = 0, es = 0,
       cf = False,
       memory = store_bytes 0x500 [16, 0, 2, 0, 0, 0, 0x00, 0x20, 10, 0, 0, 0, 0, 0, 0, 0] (\<lambda>a. 0),
       trace = [] \<rparr>"

definition ext_request_drive80 :: Engine where
  "ext_request_drive80 = ext_request\<lparr>dx := 0x0080\<rparr>"

text \<open>
  A 1.44 MB floppy image (1474560 bytes, 512-byte sectors) whose byte-offset read is empty
  when the request does not lie inside the image, and an extended read request for one
  sector whose DAP holds the logical block address 2^55 (byte 14 of the packet is 80h).
\<close>

definition floppy_image :: Image where
  "floppy_image =
     \<lparr> mbr = \<lparr> isValid = True, bytesPerSector = 512 \<rparr>,
       readCHS = (\<lambda>c h s n. []),
       readOffset = (\<lambda>off sz. if unat off + unat sz \<le> 1474560
                                 then replicate (unat sz) 0x90 else []) \<rparr>"

definition ext_request_far :: Engine where
  "ext_request_far =
     \<lparr> ax = 0x4200, bx = 0, cx = 0, dx = 0x0000, si = 0x0500, ds = 0, es = 0,
       cf = False,
       memory = store_bytes 0x500 [16, 0, 1, 0, 0, 0, 0x00, 0x20, 0, 0, 0, 0, 0, 0, 0x80, 0] (\<lambda>a. 0),
       trace = [] \<rparr>"

definition machine_of :: "Image \<Rightarrow> Machine" where
  "machine_of img = \<lparr> memorySize = 0x100000, fat = img, engine = chs_request \<rparr>"

text \<open>
  Per-vector handlers that leave the engine alone except for INT 13h, which sets the
  carry flag, and an engine whose \<open>start\<close> halts at once and reports whether it was
  started at 7C00h.
\<close>

definition stub_interrupts :: Interrupts where
  "stub_interrupts =
     \<lparr> int0x05 = (\<lambda>m e. (True, e)), int0x10 = (\<lambda>m e. (True, e)),
       int0x11 = (\<lambda>m e. (True, e)), int0x12 = (\<lambda>m e. (True, e)),
       int0x13 = (\<lambda>m e. (False, set_cf True e)), int0x14 = (\<lambda>m e. (True, e)),
       int0x15 = (\<lambda>m e. (True, e)), int0x16 = (\<lambda>m e. (True, e)),
       int0x17 = (\<lambda>m e. (True, e)), int0x18 = (\<lambda>m e. (True, e)),
       int0x19 = (\<lambda>m e. (True, e)), int0x1A = (\<lambda>m e. (True, e)) \<rparr>"

definition stub_engine_start :: "nat \<Rightarrow> Engine \<Rightarrow> (bool \<times> Engine) option" where
  "stub_engine_start address e = Some (address = 0x7C00, e)"

text \<open>The calls of a trace that write guest memory.\<close>

fun isEngineWrite :: "call \<Rightarrow> bool" where
  "isEngineWrite (EngineWrite address bs) = True"
| "isEngineWrite c = False"

section \<open>Register views\<close>

lemma hi8_with_hi8: "hi8 (with_hi8 v w) = v"
  unfolding hi8_def with_hi8_def
  by (rule bit_word_eqI) (auto simp: bit_simps)

lemma lo8_with_hi8: "lo8 (with_hi8 v w) = lo8 w"
  unfolding lo8_def with_hi8_def
  by (rule bit_word_eqI) (auto simp: bit_simps)

lemma lo8_with_lo8: "lo8 (with_lo8 v w) = v"
  unfolding lo8_def with_lo8_def
  by (rule bit_word_eqI) (auto simp: bit_simps)

lemma hi8_with_lo8: "hi8 (with_lo8 v w) = hi8 w"
  unfolding hi8_def with_lo8_def
  by (rule bit_word_eqI) (auto simp: bit_simps dest: bit_imp_le_length)

lemmas register_defs =
  ah_def al_def ch_def cl_def dh_def dl_def
  set_ah_def set_al_def set_bx_def set_cx_def set_cf_def called_def

lemmas view_simps = hi8_with_hi8 lo8_with_hi8 lo8_with_lo8 hi8_with_lo8

lemmas request_defs =
  chs_request_def chs_request_drive80_def ext_request_def ext_request_drive80_def
  machine_of_def full_image_def short_image_def empty_image_def bootImage_def

lemma hi8_numeral [simp]: "hi8 (numeral k) = ucast (drop_bit 8 (numeral k :: 16 word))"
  by (simp only: hi8_def)

lemma lo8_numeral [simp]: "lo8 (numeral k) = ucast (numeral k :: 16 word)"
  by (simp only: lo8_def)

lemma hi8_zero [simp]: "hi8 0 = 0"
  by (simp add: hi8_def)

lemma lo8_zero [simp]: "lo8 0 = 0"
  by (simp add: lo8_def)

lemma hi8_one [simp]: "hi8 1 = 0"
  by (simp add: hi8_def drop_bit_eq_div)

lemma lo8_one [simp]: "lo8 1 = 1"
  by (simp add: lo8_def)

section \<open>INT 13h/AH=00h: reset\<close>

text \<open>
  C7. Every reset sets CF=0 and AH=0, makes no call to the engine's memory or to the
  image (the trace is unchanged), leaves guest memory and every other register as they
  were, and resetting a second time gives the same state as resetting once.
\<close>

theorem reset_clears_and_is_idempotent:
  "cf (snd (reset m e)) = False
   \<and> ah (snd (reset m e)) = 0
   \<and> memory (snd (reset m e)) = memory e
   \<and> trace (snd (reset m e)) = trace e
   \<and> al (snd (reset m e)) = al e
   \<and> snd (reset m e) = e\<lparr>ax := with_hi8 0 (ax e), cf := False\<rparr>
   \<and> reset m (snd (reset m e)) = reset m e"
proof -
  have idem: "with_hi8 0 (with_hi8 0 w) = with_hi8 0 w" for w
    unfolding with_hi8_def by (rule bit_word_eqI) (auto simp: bit_simps)
  show ?thesis
    by (simp add: reset_def register_defs view_simps idem)
qed

section \<open>Return value of the disk handlers\<close>

text \<open>
  C9. Each of the four disk handlers returns true for every machine and engine state,
  on success and on failure alike, and the dispatcher callback returns true for vector
  13h whatever the INT 13h handler did or returned.
\<close>

theorem disk_handlers_return_true:
  "fst (reset m e)
   \<and> fst (readSectors m e)
   \<and> fst (checkExtensions m e)
   \<and> fst (extendedReadSectors m e)
   \<and> fst (onInterrupt_callback hs m 0x13 e)"
  by (simp add: reset_def readSectors_def readSectors_error_def checkExtensions_def
      extendedReadSectors_def extendedReadSectors_error_def onInterrupt_callback_def
      Let_def split_beta)

section \<open>Interrupt dispatcher\<close>

text \<open>
  C5. The callback returns true exactly for the vectors 05h, 10h, 11h, ..., 1Ah. For
  each of them the engine is left in the state the matching per-vector handler produced;
  for every other vector the callback returns false and the engine is untouched.
\<close>

theorem callback_true_iff_recognised:
  "fst (onInterrupt_callback hs m i e)
     = (i \<in> {0x05, 0x10, 0x11, 0x12, 0x13, 0x14, 0x15, 0x16, 0x17, 0x18, 0x19, 0x1A})
   \<and> snd (onInterrupt_callback hs m 0x05 e) = snd (int0x05 hs m e)
   \<and> snd (onInterrupt_callback hs m 0x10 e) = snd (int0x10 hs m e)
   \<and> snd (onInterrupt_callback hs m 0x11 e) = snd (int0x11 hs m e)
   \<and> snd (onInterrupt_callback hs m 0x12 e) = snd (int0x12 hs m e)
   \<and> snd (onInterrupt_callback hs m 0x13 e) = snd (int0x13 hs m e)
   \<and> snd (onInterrupt_callback hs m 0x14 e) = snd (int0x14 hs m e)
   \<and> snd (onInterrupt_callback hs m 0x15 e) = snd (int0x15 hs m e)
   \<and> snd (onInterrupt_callback hs m 0x16 e) = snd (int0x16 hs m e)
   \<and> snd (onInterrupt_callback hs m 0x17 e) = snd (int0x17 hs m e)
   \<and> snd (onInterrupt_callback hs m 0x18 e) = snd (int0x18 hs m e)
   \<and> snd (onInterrupt_callback hs m 0x19 e) = snd (int0x19 hs m e)
   \<and> snd (onInterrupt_callback hs m 0x1A e) = snd (int0x1A hs m e)
   \<and> (\<not> fst (onInterrupt_callback hs m i e) \<longrightarrow> snd (onInterrupt_callback hs m i e) = e)"
  by (simp add: onInterrupt_callback_def)

theorem callback_true_iff_recognised_witness:
  "fst (onInterrupt_callback stub_interrupts (machine_of full_image) 0x13 chs_request) = True
   \<and> cf (snd (onInterrupt_callback stub_interrupts (machine_of full_image) 0x13 chs_request)) = True
   \<and> fst (onInterrupt_callback stub_interrupts (machine_of full_image) 0x1B chs_request) = False
   \<and> fst (onInterrupt_callback stub_interrupts (machine_of full_image) 0x06 chs_request) = False
   \<and> snd (onInterrupt_callback stub_interrupts (machine_of full_image) 0x1B chs_request) = chs_request"
proof -
  note r13 = callback_true_iff_recognised
    [of stub_interrupts "machine_of full_image" "0x13" chs_request]
  note r1B = callback_true_iff_recognised
    [of stub_interrupts "machine_of full_image" "0x1B" chs_request]
  note r06 = callback_true_iff_recognised
    [of stub_interrupts "machine_of full_image" "0x06" chs_request]
  have a: "fst (onInterrupt_callback stub_interrupts (machine_of full_image) 0x13 chs_request) = True"
    using r13 by simp
  have b: "cf (snd (onInterrupt_callback stub_interrupts (machine_of full_image) 0x13 chs_request)) = True"
    using r13 by (simp add: stub_interrupts_def set_cf_def)
  have c: "fst (onInterrupt_callback stub_interrupts (machine_of full_image) 0x1B chs_request) = False"
    using r1B by simp
  have d: "fst (onInterrupt_callback stub_interrupts (machine_of full_image) 0x06 chs_request) = False"
    using r06 by simp
  have e: "snd (onInterrupt_callback stub_interrupts (machine_of full_image) 0x1B chs_request) = chs_request"
    using r1B c by simp
  from a b c d e show ?thesis by simp
qed

section \<open>Machine::start\<close>

text \<open>
  C6. \<open>start\<close> runs the engine from address 7C00h, which is the linear address of
  0000:7C00, and its outcome is the engine's: it does not return when the engine never
  halts, and otherwise it returns the boolean the engine returned, the machine holding
  the engine's final state.
\<close>

theorem start_runs_engine_at_7C00:
  "map_option fst (start engine_start m) = map_option fst (engine_start 0x7C00 (engine m))
   \<and> map_option (engine \<circ> snd) (start engine_start m)
       = map_option snd (engine_start 0x7C00 (engine m))
   \<and> (start engine_start m = None) = (engine_start 0x7C00 (engine m) = None)
   \<and> getAddress 0x0000 0x7C00 = 0x7C00"
  by (simp add: start_def getAddress_def split: option.split)

theorem start_runs_engine_at_7C00_witness:
  "map_option fst (start stub_engine_start (machine_of full_image)) = Some True"
  using start_runs_engine_at_7C00 [of stub_engine_start "machine_of full_image"]
  by (simp add: stub_engine_start_def)

section \<open>Guest memory and the error exits\<close>

lemma store_bytes_inside: "i < length bs \<Longrightarrow> store_bytes a bs m (a + i) = bs ! i"
  by (simp add: store_bytes_def)

lemma store_bytes_outside: "x < a \<or> a + length bs \<le> x \<Longrightarrow> store_bytes a bs m x = m x"
  by (auto simp: store_bytes_def)

lemma readSectors_error_fields:
  "fst (readSectors_error e) = True"
  "cf (snd (readSectors_error e)) = True"
  "ah (snd (readSectors_error e)) = 1"
  "al (snd (readSectors_error e)) = 0"
  "memory (snd (readSectors_error e)) = memory e"
  "trace (snd (readSectors_error e)) = trace e"
  by (simp_all add: readSectors_error_def register_defs view_simps)

lemma extendedReadSectors_error_fields:
  "fst (extendedReadSectors_error e) = True"
  "cf (snd (extendedReadSectors_error e)) = True"
  "ah (snd (extendedReadSectors_error e)) = 1"
  "al (snd (extendedReadSectors_error e)) = al e"
  "memory (snd (extendedReadSectors_error e)) = memory e"
  "trace (snd (extendedReadSectors_error e)) = trace e"
  by (simp_all add: extendedReadSectors_error_def register_defs view_simps)

lemma called_fields:
  "memory (called c e) = memory e"
  "trace (called c e) = trace e @ [c]"
  "ax (called c e) = ax e"
  "al (called c e) = al e"
  "cf (called c e) = cf e"
  by (simp_all add: called_def al_def)

section \<open>The paths of readSectors\<close>

lemma readSectors_other_drive:
  "dl e \<noteq> 0 \<Longrightarrow> readSectors m e = readSectors_error e"
  by (simp add: readSectors_def Let_def)

lemma readSectors_no_data:
  "dl e = 0 \<Longrightarrow> readCHS (bootImage m) (ch e) (dh e) (cl e) (al e) = [] \<Longrightarrow>
   readSectors m e = readSectors_error (called (ImageReadCHS (ch e) (dh e) (cl e) (al e)) e)"
  by (simp add: readSectors_def Let_def)

lemma readSectors_data:
  "dl e = 0 \<Longrightarrow> readCHS (bootImage m) (ch e) (dh e) (cl e) (al e) \<noteq> [] \<Longrightarrow>
   readSectors m e =
     (True, set_al (al e) (set_ah 0 (set_cf False
        (engine_write (getAddress (es e) (bx e))
           (readCHS (bootImage m) (ch e) (dh e) (cl e) (al e))
           (called (ImageReadCHS (ch e) (dh e) (cl e) (al e)) e)))))"
  by (simp add: readSectors_def Let_def)

lemma success_exit_fields:
  "cf (set_al v (set_ah 0 (set_cf False e))) = False"
  "ah (set_al v (set_ah 0 (set_cf False e))) = 0"
  "al (set_al v (set_ah 0 (set_cf False e))) = v"
  "memory (set_al v (set_ah 0 (set_cf False e))) = memory e"
  "trace (set_al v (set_ah 0 (set_cf False e))) = trace e"
  "cf (set_ah 0 (set_cf False e)) = False"
  "ah (set_ah 0 (set_cf False e)) = 0"
  "al (set_ah 0 (set_cf False e)) = al e"
  "memory (set_ah 0 (set_cf False e)) = memory e"
  "trace (set_ah 0 (set_cf False e)) = trace e"
  by (simp_all add: register_defs view_simps)

lemma engine_write_fields:
  "memory (engine_write a bs e) = store_bytes a bs (memory e)"
  "trace (engine_write a bs e) = trace e @ [EngineWrite a bs]"
  "al (engine_write a bs e) = al e"
  by (simp_all add: engine_write_def called_def al_def)

section \<open>INT 13h/AH=02h: read sectors\<close>

text \<open>
  C1, as amended. For every INT 13h/AH=02h invocation with DL=0 whose image read returns
  a non-empty byte vector, the handler writes exactly those bytes to guest memory
  starting at the linear address of ES:BX and nothing else, and sets CF=0, AH=0 and AL to
  the sector count it was called with. The number of bytes written is the length of the
  vector the image returned; it is AL times bytesPerSector when the image returned that
  many bytes for the request, which the handler does not check.
\<close>

theorem readSectors_writes_image_bytes:
  assumes "dl e = 0"
    and "readCHS (bootImage m) (ch e) (dh e) (cl e) (al e) \<noteq> []"
  shows "let bs = readCHS (bootImage m) (ch e) (dh e) (cl e) (al e);
             destination = getAddress (es e) (bx e);
             e' = snd (readSectors m e)
         in (\<forall>i<length bs. memory e' (destination + i) = bs ! i)
          \<and> (\<forall>a. a < destination \<or> destination + length bs \<le> a \<longrightarrow> memory e' a = memory e a)
          \<and> trace e' = trace e @ [ImageReadCHS (ch e) (dh e) (cl e) (al e), EngineWrite destination bs]
          \<and> cf e' = False \<and> ah e' = 0 \<and> al e' = al e
          \<and> (length bs = unat (al e) * unat (bytesPerSector (mbr (bootImage m))) \<longrightarrow>
               length bs = unat (al e') * unat (bytesPerSector (mbr (bootImage m))))"
  unfolding Let_def readSectors_data [OF assms] snd_conv success_exit_fields
    engine_write_fields called_fields
  by (simp add: store_bytes_inside store_bytes_outside)

theorem readSectors_writes_image_bytes_witness:
  "dl chs_request = 0
   \<and> readCHS (bootImage (machine_of full_image)) (ch chs_request) (dh chs_request)
        (cl chs_request) (al chs_request) = replicate 512 0x90
   \<and> getAddress (es chs_request) (bx chs_request) = 0x10000
   \<and> memory (snd (readSectors (machine_of full_image) chs_request)) 0x10000 = 0x90
   \<and> memory (snd (readSectors (machine_of full_image) chs_request)) 0x101FF = 0x90
   \<and> memory (snd (readSectors (machine_of full_image) chs_request)) 0x10200 = 0
   \<and> trace (snd (readSectors (machine_of full_image) chs_request))
        = [ImageReadCHS 0 0 2 1, EngineWrite 0x10000 (replicate 512 0x90)]
   \<and> cf (snd (readSectors (machine_of full_image) chs_request)) = False
   \<and> ah (snd (readSectors (machine_of full_image) chs_request)) = 0
   \<and> al (snd (readSectors (machine_of full_image) chs_request)) = 1
   \<and> length (replicate 512 (0x90 :: 8 word))
       = unat (al (snd (readSectors (machine_of full_image) chs_request)))
         * unat (bytesPerSector (mbr (bootImage (machine_of full_image))))"
proof -
  have drive: "dl chs_request = 0"
    by (simp add: request_defs dl_def)
  have regs: "ch chs_request = 0" "dh chs_request = 0" "cl chs_request = 2" "al chs_request = 1"
    by (simp_all add: request_defs register_defs)
  have data: "readCHS (bootImage (machine_of full_image)) (ch chs_request) (dh chs_request)
        (cl chs_request) (al chs_request) = replicate 512 0x90"
    by (simp add: regs) (simp add: request_defs)
  have dest: "getAddress (es chs_request) (bx chs_request) = 0x10000"
    by (simp add: request_defs getAddress_def)
  have tr: "trace chs_request = []" and mem: "memory chs_request = (\<lambda>a. 0)"
    by (simp_all add: request_defs)
  have nonempty: "readCHS (bootImage (machine_of full_image)) (ch chs_request) (dh chs_request)
        (cl chs_request) (al chs_request) \<noteq> []"
    by (simp add: data)
  note r = readSectors_writes_image_bytes [OF drive nonempty, unfolded Let_def data dest]
  from r have first: "memory (snd (readSectors (machine_of full_image) chs_request)) (0x10000 + 0)
      = replicate 512 0x90 ! 0"
    by (metis length_replicate zero_less_numeral)
  from r have "511 < length (replicate 512 (0x90 :: 8 word)) \<longrightarrow>
      memory (snd (readSectors (machine_of full_image) chs_request)) (0x10000 + 511)
      = replicate 512 0x90 ! 511"
    by blast
  then have last: "memory (snd (readSectors (machine_of full_image) chs_request)) 0x101FF = 0x90"
    by simp
  from r have "memory (snd (readSectors (machine_of full_image) chs_request)) 0x10200
      = memory chs_request 0x10200"
    by simp
  then have after: "memory (snd (readSectors (machine_of full_image) chs_request)) 0x10200 = 0"
    by (simp add: mem)
  from r have rest: "trace (snd (readSectors (machine_of full_image) chs_request))
        = [ImageReadCHS 0 0 2 1, EngineWrite 0x10000 (replicate 512 0x90)]"
    "cf (snd (readSectors (machine_of full_image) chs_request)) = False"
    "ah (snd (readSectors (machine_of full_image) chs_request)) = 0"
    "al (snd (readSectors (machine_of full_image) chs_request)) = 1"
    by (simp_all add: tr regs)
  from first have first': "memory (snd (readSectors (machine_of full_image) chs_request)) 0x10000 = 0x90"
    by simp
  have sector: "bytesPerSector (mbr (bootImage (machine_of full_image))) = 512"
    by (simp add: request_defs)
  show ?thesis
    using drive data dest first' last after rest sector by simp
qed

text \<open>
  C1 as stated fails: an image that returns three bytes for a one-sector request makes
  the handler succeed with AL=1 after writing three bytes, not 1 times 512.
\<close>

theorem readSectors_byte_count_counterexample:
  "dl chs_request = 0
   \<and> readCHS (bootImage (machine_of short_image)) (ch chs_request) (dh chs_request)
        (cl chs_request) (al chs_request) = [0xDE, 0xAD, 0xBE]
   \<and> trace (snd (readSectors (machine_of short_image) chs_request))
        = [ImageReadCHS 0 0 2 1, EngineWrite 0x10000 [0xDE, 0xAD, 0xBE]]
   \<and> cf (snd (readSectors (machine_of short_image) chs_request)) = False
   \<and> al (snd (readSectors (machine_of short_image) chs_request)) = 1
   \<and> bytesPerSector (mbr (bootImage (machine_of short_image))) = 512
   \<and> length [0xDE, 0xAD, 0xBE :: 8 word]
        \<noteq> unat (al (snd (readSectors (machine_of short_image) chs_request)))
          * unat (bytesPerSector (mbr (bootImage (machine_of short_image))))"
  by (simp add: readSectors_def Let_def request_defs register_defs engine_write_def
      getAddress_def with_lo8_def with_hi8_def)

text \<open>
  C4, as amended. For every INT 13h/AH=02h invocation with DL=0, the handler sets CF=1,
  AH=1 and AL=0 when the image read returns an empty result; any non-empty result, also
  one shorter than the requested sectors times bytesPerSector, is a success with CF=0,
  AH=0 and AL the requested count.
\<close>

theorem readSectors_fails_on_empty_read_only:
  assumes "dl e = 0"
  shows "(readCHS (bootImage m) (ch e) (dh e) (cl e) (al e) = [] \<longrightarrow>
            cf (snd (readSectors m e)) = True
          \<and> ah (snd (readSectors m e)) = 1
          \<and> al (snd (readSectors m e)) = 0)
       \<and> (readCHS (bootImage m) (ch e) (dh e) (cl e) (al e) \<noteq> [] \<longrightarrow>
            cf (snd (readSectors m e)) = False
          \<and> ah (snd (readSectors m e)) = 0
          \<and> al (snd (readSectors m e)) = al e)"
proof (intro conjI impI)
  assume empty: "readCHS (bootImage m) (ch e) (dh e) (cl e) (al e) = []"
  show "cf (snd (readSectors m e)) = True" "ah (snd (readSectors m e)) = 1"
    "al (snd (readSectors m e)) = 0"
    by (simp_all add: readSectors_no_data [OF assms empty] readSectors_error_fields)
next
  assume data: "readCHS (bootImage m) (ch e) (dh e) (cl e) (al e) \<noteq> []"
  show "cf (snd (readSectors m e)) = False" "ah (snd (readSectors m e)) = 0"
    "al (snd (readSectors m e)) = al e"
    by (simp_all add: readSectors_data [OF assms data] success_exit_fields)
qed

theorem readSectors_fails_on_empty_read_only_witness:
  "dl chs_request = 0
   \<and> readCHS (bootImage (machine_of empty_image)) (ch chs_request) (dh chs_request)
        (cl chs_request) (al chs_request) = []
   \<and> cf (snd (readSectors (machine_of empty_image) chs_request)) = True
   \<and> ah (snd (readSectors (machine_of empty_image) chs_request)) = 1
   \<and> al (snd (readSectors (machine_of empty_image) chs_request)) = 0"
proof -
  have drive: "dl chs_request = 0"
    by (simp add: request_defs dl_def)
  have empty: "readCHS (bootImage (machine_of empty_image)) (ch chs_request) (dh chs_request)
        (cl chs_request) (al chs_request) = []"
    by (simp add: request_defs)
  show ?thesis
    using readSectors_fails_on_empty_read_only [OF drive, of "machine_of empty_image"] drive empty
    by simp
qed

text \<open>
  C4 as stated fails: two sectors are requested, the image returns three bytes, fewer
  than 2 times 512, and the handler reports success.
\<close>

theorem readSectors_short_read_counterexample:
  "dl (chs_request\<lparr>ax := 0x0202\<rparr>) = 0
   \<and> al (chs_request\<lparr>ax := 0x0202\<rparr>) = 2
   \<and> length (readCHS (bootImage (machine_of short_image)) (ch (chs_request\<lparr>ax := 0x0202\<rparr>))
        (dh (chs_request\<lparr>ax := 0x0202\<rparr>)) (cl (chs_request\<lparr>ax := 0x0202\<rparr>))
        (al (chs_request\<lparr>ax := 0x0202\<rparr>)))
       < unat (al (chs_request\<lparr>ax := 0x0202\<rparr>))
         * unat (bytesPerSector (mbr (bootImage (machine_of short_image))))
   \<and> cf (snd (readSectors (machine_of short_image) (chs_request\<lparr>ax := 0x0202\<rparr>))) = False
   \<and> ah (snd (readSectors (machine_of short_image) (chs_request\<lparr>ax := 0x0202\<rparr>))) = 0
   \<and> al (snd (readSectors (machine_of short_image) (chs_request\<lparr>ax := 0x0202\<rparr>))) = 2"
  by (simp add: readSectors_def Let_def request_defs register_defs engine_write_def
      getAddress_def view_simps)

section \<open>The paths of extendedReadSectors\<close>

lemma engine_read_fields:
  "fst (engine_read a n e) = map (\<lambda>i. memory e (a + i)) [0..<n]"
  "snd (engine_read a n e) = called (EngineRead a n) e"
  by (simp_all add: engine_read_def)

lemma extendedReadSectors_other_drive:
  fixes m e
  defines "a \<equiv> getAddress (ds e) (si e)"
  defines "dapData \<equiv> map (\<lambda>i. memory e (a + i)) [0..<16]"
  assumes "dl e \<noteq> 0"
  shows "extendedReadSectors m e =
     extendedReadSectors_error (called (DAPConstruct dapData) (called (EngineRead a 16) e))"
  using assms(3) unfolding a_def dapData_def
  by (simp add: extendedReadSectors_def Let_def engine_read_def DAP_DataSize_def)

lemma extendedReadSectors_drive0:
  fixes m e
  defines "a \<equiv> getAddress (ds e) (si e)"
  defines "dapData \<equiv> map (\<lambda>i. memory e (a + i)) [0..<16]"
  defines "dap \<equiv> DAP_of_stream dapData"
  defines "bps \<equiv> (if isValid (mbr (bootImage m)) then ucast (bytesPerSector (mbr (bootImage m)))
                   else (512 :: 64 word))"
  defines "off \<equiv> logicalBlockAddress dap * bps"
  defines "sz \<equiv> ucast (numberOfSectors dap) * bps"
  defines "bs \<equiv> readOffset (bootImage m) off sz"
  defines "e3 \<equiv> called (ImageReadOffset off sz)
                  (called (DAPConstruct dapData) (called (EngineRead a 16) e))"
  assumes "dl e = 0"
  shows "extendedReadSectors m e =
     (if bs = [] then extendedReadSectors_error e3
      else (True, set_ah 0 (set_cf False
              (engine_write (getAddress (destinationSegment dap) (destinationOffset dap)) bs e3))))"
  using assms(9) unfolding a_def dapData_def dap_def bps_def off_def sz_def bs_def e3_def
  by (simp add: extendedReadSectors_def Let_def engine_read_def DAP_DataSize_def)

lemma checkExtensions_fields:
  "cf (snd (checkExtensions m e)) = False"
  "ah (snd (checkExtensions m e)) = 0"
  "al (snd (checkExtensions m e)) = al e"
  "bx (snd (checkExtensions m e)) = 0xAA55"
  "cx (snd (checkExtensions m e)) = 7"
  "memory (snd (checkExtensions m e)) = memory e"
  "trace (snd (checkExtensions m e)) = trace e"
  by (simp_all add: checkExtensions_def register_defs view_simps)

lemma reset_fields:
  "cf (snd (reset m e)) = False"
  "ah (snd (reset m e)) = 0"
  "al (snd (reset m e)) = al e"
  by (simp_all add: reset_def register_defs view_simps)

section \<open>Drives other than 0\<close>

text \<open>
  C3, as amended. With DL not equal to 0, INT 13h/AH=02h sets CF=1, AH=01h and AL=0, and
  INT 13h/AH=42h sets CF=1 and AH=01h and leaves AL as it was. Reset (AH=00h) and the
  extensions check (AH=41h) do not look at DL: they set CF=0 and AH=0 and leave AL as it
  was.
\<close>

theorem other_drive_outcomes:
  assumes "dl e \<noteq> 0"
  shows "cf (snd (readSectors m e)) = True
       \<and> ah (snd (readSectors m e)) = 1
       \<and> al (snd (readSectors m e)) = 0
       \<and> cf (snd (extendedReadSectors m e)) = True
       \<and> ah (snd (extendedReadSectors m e)) = 1
       \<and> al (snd (extendedReadSectors m e)) = al e
       \<and> cf (snd (reset m e)) = False
       \<and> ah (snd (reset m e)) = 0
       \<and> al (snd (reset m e)) = al e
       \<and> cf (snd (checkExtensions m e)) = False
       \<and> ah (snd (checkExtensions m e)) = 0
       \<and> al (snd (checkExtensions m e)) = al e"
  by (simp add: readSectors_other_drive [OF assms] extendedReadSectors_other_drive [OF assms]
      readSectors_error_fields extendedReadSectors_error_fields called_fields
      reset_fields checkExtensions_fields)

theorem other_drive_outcomes_witness:
  "dl ext_request_drive80 = 0x80
   \<and> al ext_request_drive80 = 5
   \<and> cf (snd (readSectors (machine_of full_image) ext_request_drive80)) = True
   \<and> ah (snd (readSectors (machine_of full_image) ext_request_drive80)) = 1
   \<and> al (snd (readSectors (machine_of full_image) ext_request_drive80)) = 0
   \<and> cf (snd (extendedReadSectors (machine_of full_image) ext_request_drive80)) = True
   \<and> ah (snd (extendedReadSectors (machine_of full_image) ext_request_drive80)) = 1
   \<and> al (snd (extendedReadSectors (machine_of full_image) ext_request_drive80)) = 5"
proof -
  have drive: "dl ext_request_drive80 = 0x80"
    by (simp add: request_defs dl_def)
  then have other: "dl ext_request_drive80 \<noteq> 0"
    by simp
  have low: "al ext_request_drive80 = 5"
    by (simp add: request_defs al_def)
  show ?thesis
    using other_drive_outcomes [OF other, of "machine_of full_image"] drive low
    by simp
qed

text \<open>
  C3 as stated fails at DL=80h: reset and the extensions check clear CF, and the extended
  read leaves AL=5 in place.
\<close>

theorem other_drive_counterexample:
  "dl ext_request_drive80 = 0x80
   \<and> cf (snd (reset (machine_of full_image) ext_request_drive80)) = False
   \<and> ah (snd (reset (machine_of full_image) ext_request_drive80)) = 0
   \<and> cf (snd (checkExtensions (machine_of full_image) ext_request_drive80)) = False
   \<and> ah (snd (checkExtensions (machine_of full_image) ext_request_drive80)) = 0
   \<and> cf (snd (extendedReadSectors (machine_of full_image) ext_request_drive80)) = True
   \<and> al (snd (extendedReadSectors (machine_of full_image) ext_request_drive80)) = 5"
  by (simp add: reset_def checkExtensions_def extendedReadSectors_def
      extendedReadSectors_error_def engine_read_def Let_def request_defs register_defs
      view_simps)

section \<open>Failed reads and guest memory\<close>

text \<open>
  C10. When INT 13h/AH=02h or INT 13h/AH=42h fails, because DL is not 0 or because the
  image read came back empty, the handler sets CF=1, makes no write call to the engine
  and leaves every byte of guest memory as it was.
\<close>

theorem failed_read_leaves_memory:
  "(dl e \<noteq> 0 \<or> readCHS (bootImage m) (ch e) (dh e) (cl e) (al e) = [] \<longrightarrow>
      cf (snd (readSectors m e)) = True
    \<and> memory (snd (readSectors m e)) = memory e
    \<and> filter isEngineWrite (trace (snd (readSectors m e))) = filter isEngineWrite (trace e))
   \<and> (let dap = DAP_of_stream (map (\<lambda>i. memory e (getAddress (ds e) (si e) + i)) [0..<16]);
          bps = (if isValid (mbr (bootImage m)) then ucast (bytesPerSector (mbr (bootImage m)))
                 else (512 :: 64 word))
      in dl e \<noteq> 0
         \<or> readOffset (bootImage m) (logicalBlockAddress dap * bps)
              (ucast (numberOfSectors dap) * bps) = [] \<longrightarrow>
        cf (snd (extendedReadSectors m e)) = True
      \<and> memory (snd (extendedReadSectors m e)) = memory e
      \<and> filter isEngineWrite (trace (snd (extendedReadSectors m e)))
          = filter isEngineWrite (trace e))"
proof -
  have chs: "cf (snd (readSectors m e)) = True
      \<and> memory (snd (readSectors m e)) = memory e
      \<and> filter isEngineWrite (trace (snd (readSectors m e))) = filter isEngineWrite (trace e)"
    if "dl e \<noteq> 0 \<or> readCHS (bootImage m) (ch e) (dh e) (cl e) (al e) = []"
  proof (cases "dl e = 0")
    case True
    with that have "readCHS (bootImage m) (ch e) (dh e) (cl e) (al e) = []"
      by simp
    then show ?thesis
      by (simp add: readSectors_no_data [OF True] readSectors_error_fields called_fields)
  next
    case False
    then show ?thesis
      by (simp add: readSectors_other_drive readSectors_error_fields)
  qed
  have ext: "cf (snd (extendedReadSectors m e)) = True
      \<and> memory (snd (extendedReadSectors m e)) = memory e
      \<and> filter isEngineWrite (trace (snd (extendedReadSectors m e)))
          = filter isEngineWrite (trace e)"
    if "dl e \<noteq> 0
         \<or> readOffset (bootImage m)
              (logicalBlockAddress (DAP_of_stream (map (\<lambda>i. memory e (getAddress (ds e) (si e) + i)) [0..<16]))
                * (if isValid (mbr (bootImage m)) then ucast (bytesPerSector (mbr (bootImage m)))
                   else (512 :: 64 word)))
              (ucast (numberOfSectors (DAP_of_stream (map (\<lambda>i. memory e (getAddress (ds e) (si e) + i)) [0..<16])))
                * (if isValid (mbr (bootImage m)) then ucast (bytesPerSector (mbr (bootImage m)))
                   else (512 :: 64 word))) = []"
  proof (cases "dl e = 0")
    case True
    with that show ?thesis
      by (simp add: extendedReadSectors_drive0 [OF True] extendedReadSectors_error_fields
          called_fields)
  next
    case False
    then show ?thesis
      by (simp add: extendedReadSectors_other_drive extendedReadSectors_error_fields
          called_fields)
  qed
  show ?thesis
    unfolding Let_def using chs ext by blast
qed

theorem failed_read_leaves_memory_witness:
  "dl chs_request_drive80 = 0x80
   \<and> cf (snd (readSectors (machine_of full_image) chs_request_drive80)) = True
   \<and> memory (snd (readSectors (machine_of full_image) chs_request_drive80))
       = memory chs_request_drive80
   \<and> filter isEngineWrite (trace (snd (readSectors (machine_of full_image) chs_request_drive80)))
       = []
   \<and> dl ext_request = 0
   \<and> cf (snd (extendedReadSectors (machine_of empty_image) ext_request)) = True
   \<and> memory (snd (extendedReadSectors (machine_of empty_image) ext_request))
       = memory ext_request
   \<and> filter isEngineWrite (trace (snd (extendedReadSectors (machine_of empty_image) ext_request)))
       = []"
proof -
  have drive80: "dl chs_request_drive80 = 0x80"
    by (simp add: request_defs dl_def)
  have drive0: "dl ext_request = 0"
    by (simp add: request_defs dl_def)
  have no_calls: "trace chs_request_drive80 = []" "trace ext_request = []"
    by (simp_all add: request_defs)
  have empty: "readOffset (bootImage (machine_of empty_image)) off sz = []" for off sz
    by (simp add: request_defs)
  have chs: "cf (snd (readSectors (machine_of full_image) chs_request_drive80)) = True
     \<and> memory (snd (readSectors (machine_of full_image) chs_request_drive80))
         = memory chs_request_drive80
     \<and> filter isEngineWrite (trace (snd (readSectors (machine_of full_image) chs_request_drive80)))
         = []"
    using failed_read_leaves_memory [of chs_request_drive80 "machine_of full_image"]
      drive80 no_calls
    by simp
  have ext: "cf (snd (extendedReadSectors (machine_of empty_image) ext_request)) = True
     \<and> memory (snd (extendedReadSectors (machine_of empty_image) ext_request))
         = memory ext_request
     \<and> filter isEngineWrite (trace (snd (extendedReadSectors (machine_of empty_image) ext_request)))
         = []"
    using failed_read_leaves_memory [of ext_request "machine_of empty_image"] no_calls
    unfolding Let_def empty
    by simp
  show ?thesis
    using drive80 drive0 chs ext by simp
qed

section \<open>INT 13h/AH=42h: the DAP is read before the drive is checked\<close>

text \<open>
  C8. Whatever DL is, the first two calls of the extended read are the engine read of 16
  bytes at the linear address of DS:SI and the construction of the DAP from exactly those
  bytes. With DL not equal to 0 they are the only calls, and the handler then fails with
  CF=1 and AH=1.
\<close>

theorem extendedReadSectors_reads_DAP_first:
  "let a = getAddress (ds e) (si e);
       dapData = map (\<lambda>i. memory e (a + i)) [0..<16];
       e' = snd (extendedReadSectors m e)
   in take 2 (drop (length (trace e)) (trace e')) = [EngineRead a 16, DAPConstruct dapData]
    \<and> length dapData = 16
    \<and> (dl e \<noteq> 0 \<longrightarrow>
         trace e' = trace e @ [EngineRead a 16, DAPConstruct dapData]
       \<and> cf e' = True \<and> ah e' = 1)"
proof (cases "dl e = 0")
  case True
  show ?thesis
    unfolding Let_def
    by (simp add: True extendedReadSectors_drive0 extendedReadSectors_error_fields
        called_fields success_exit_fields engine_write_fields)
next
  case False
  show ?thesis
    unfolding Let_def
    by (simp add: False extendedReadSectors_other_drive extendedReadSectors_error_fields
        called_fields)
qed

theorem extendedReadSectors_reads_DAP_first_witness:
  "dl ext_request_drive80 = 0x80
   \<and> getAddress (ds ext_request_drive80) (si ext_request_drive80) = 0x500
   \<and> trace (snd (extendedReadSectors (machine_of full_image) ext_request_drive80))
       = [EngineRead 0x500 16,
          DAPConstruct [16, 0, 2, 0, 0, 0, 0x00, 0x20, 10, 0, 0, 0, 0, 0, 0, 0]]
   \<and> cf (snd (extendedReadSectors (machine_of full_image) ext_request_drive80)) = True
   \<and> ah (snd (extendedReadSectors (machine_of full_image) ext_request_drive80)) = 1"
proof -
  have drive80: "dl ext_request_drive80 = 0x80"
    by (simp add: request_defs dl_def)
  have addr: "getAddress (ds ext_request_drive80) (si ext_request_drive80) = 0x500"
    by (simp add: request_defs getAddress_def)
  have no_calls: "trace ext_request_drive80 = []"
    by (simp add: request_defs)
  have packet: "map (\<lambda>i. memory ext_request_drive80 (0x500 + i)) [0..<16]
      = [16, 0, 2, 0, 0, 0, 0x00, 0x20, 10, 0, 0, 0, 0, 0, 0, 0]"
    by (simp add: request_defs store_bytes_def upt_rec)
  show ?thesis
    using extendedReadSectors_reads_DAP_first [of ext_request_drive80 "machine_of full_image"]
      drive80 no_calls
    unfolding Let_def addr packet
    by simp
qed

section \<open>Layout of the disk address packet\<close>

lemma byte_below_256: "unat (b :: 8 word) < 256"
  using unsigned_less [of b] by simp

lemma stream_slice:
  "off + n \<le> k \<Longrightarrow> take n (drop off (map f [0..<k])) = map f [off..<off + n]"
  by (simp add: take_map drop_map take_upt)

lemma two_from: "[off..<off + 2] = [off, off + 1]"
  by (simp add: upt_conv_Cons)

lemma unat_le_field:
  "le_nat (take n (drop off bs)) < 2 ^ LENGTH('a) \<Longrightarrow>
   unat (le_field off n bs :: 'a::len word) = le_nat (take n (drop off bs))"
  by (simp only: le_field_def unat_of_nat mod_less)

lemma le_field_16:
  "unat (le_field off 2 (map f [0..<16]) :: 16 word) = unat (f off) + 256 * unat (f (off + 1))"
  if "off + 2 \<le> 16"
proof -
  have slice: "take 2 (drop off (map f [0..<16])) = [f off, f (off + 1)]"
    using that by (simp add: stream_slice two_from)
  have val: "le_nat (take 2 (drop off (map f [0..<16]))) = unat (f off) + 256 * unat (f (off + 1))"
    unfolding slice by (simp add: le_nat_def)
  have "unat (f off) + 256 * unat (f (off + 1)) < 2 ^ LENGTH(16)"
    using byte_below_256 [of "f off"] byte_below_256 [of "f (off + 1)"] by simp
  then show ?thesis
    using unat_le_field [of 2 off "map f [0..<16]", where 'a = 16] val by simp
qed

lemma le_field_64:
  "unat (le_field 8 8 (map f [0..<16]) :: 64 word) =
     unat (f 8) + 256 * (unat (f 9) + 256 * (unat (f 10) + 256 * (unat (f 11)
       + 256 * (unat (f 12) + 256 * (unat (f 13) + 256 * (unat (f 14) + 256 * unat (f 15)))))))"
proof -
  have "take 8 (drop 8 (map f [0..<16])) = map f [8..<8 + 8]"
    by (rule stream_slice) simp
  then have slice: "take 8 (drop 8 (map f [0..<16])) = [f 8, f 9, f 10, f 11, f 12, f 13, f 14, f 15]"
    by simp
  have val: "le_nat (take 8 (drop 8 (map f [0..<16]))) =
     unat (f 8) + 256 * (unat (f 9) + 256 * (unat (f 10) + 256 * (unat (f 11)
       + 256 * (unat (f 12) + 256 * (unat (f 13) + 256 * (unat (f 14) + 256 * unat (f 15)))))))"
    unfolding slice by (simp add: le_nat_def)
  have "unat (f 8) + 256 * (unat (f 9) + 256 * (unat (f 10) + 256 * (unat (f 11)
       + 256 * (unat (f 12) + 256 * (unat (f 13) + 256 * (unat (f 14) + 256 * unat (f 15)))))))
       < 2 ^ LENGTH(64)"
    using byte_below_256 [of "f 8"] byte_below_256 [of "f 9"] byte_below_256 [of "f 10"]
      byte_below_256 [of "f 11"] byte_below_256 [of "f 12"] byte_below_256 [of "f 13"]
      byte_below_256 [of "f 14"] byte_below_256 [of "f 15"]
    by simp
  then show ?thesis
    using unat_le_field [of 8 8 "map f [0..<16]", where 'a = 64] val by simp
qed

lemma DAP_layout:
  fixes mem :: "nat \<Rightarrow> 8 word" and a :: nat
  defines "dap \<equiv> DAP_of_stream (map (\<lambda>i. mem (a + i)) [0..<16])"
  shows "unat (numberOfSectors dap) = unat (mem (a + 2)) + 256 * unat (mem (a + 3))"
    and "unat (destinationOffset dap) = unat (mem (a + 4)) + 256 * unat (mem (a + 5))"
    and "unat (destinationSegment dap) = unat (mem (a + 6)) + 256 * unat (mem (a + 7))"
    and "unat (logicalBlockAddress dap) =
           unat (mem (a + 8)) + 256 * (unat (mem (a + 9)) + 256 * (unat (mem (a + 10))
         + 256 * (unat (mem (a + 11)) + 256 * (unat (mem (a + 12)) + 256 * (unat (mem (a + 13))
         + 256 * (unat (mem (a + 14)) + 256 * unat (mem (a + 15))))))))"
  unfolding dap_def DAP_of_stream_def
  by (simp_all add: le_field_16 le_field_64)

lemma sector_arithmetic:
  fixes lba bps :: "64 word" and n b :: "16 word"
  shows "unat (lba * bps) = (unat lba * unat bps) mod 2 ^ 64"
    and "unat ((ucast n :: 64 word) * ucast b) = unat n * unat b"
    and "unat ((ucast n :: 64 word) * 512) = unat n * 512"
proof -
  show "unat (lba * bps) = (unat lba * unat bps) mod 2 ^ 64"
    by (simp add: unat_word_ariths)
  have n: "unat n < 2 ^ 16" and b: "unat b < 2 ^ 16"
    using unsigned_less [of n] unsigned_less [of b] by simp_all
  have "unat n < 2 ^ 64" "unat b < 2 ^ 64"
    using n b by simp_all
  then have up: "unat (ucast n :: 64 word) = unat n" "unat (ucast b :: 64 word) = unat b"
    by (simp_all add: unsigned_ucast_eq take_bit_nat_eq_self)
  have "unat n * unat b < 2 ^ 16 * 2 ^ 16"
    using n b by (intro mult_strict_mono) simp_all
  then have "unat n * unat b < 2 ^ 64"
    by simp
  then show "unat ((ucast n :: 64 word) * ucast b) = unat n * unat b"
    by (simp add: unat_word_ariths up)
  have "unat n * 512 < 2 ^ 64"
    using n by simp
  then show "unat ((ucast n :: 64 word) * 512) = unat n * 512"
    by (simp add: unat_word_ariths up)
qed

section \<open>INT 13h/AH=42h: extended read\<close>

text \<open>
  C2, as amended. For every INT 13h/AH=42h invocation with DL=0 the handler reads 16 bytes
  at the linear address of DS:SI and decodes them as a DAP (little-endian fields at offsets
  2, 4, 6 and 8), takes bytesPerSector from the MBR when it is valid and 512 otherwise,
  computes offset = (logicalBlockAddress * bytesPerSector) mod 2^64, the 64-bit product, and
  size = numberOfSectors * bytesPerSector, and asks the image for size bytes at offset. A
  non-empty result is written to the linear address of
  destinationSegment:destinationOffset, nothing else in memory changes, and CF=0, AH=0;
  an empty result gives CF=1, AH=1 and no write.
\<close>

theorem extendedReadSectors_reads_by_DAP:
  assumes "dl e = 0"
  shows "let a = getAddress (ds e) (si e);
             dapData = map (\<lambda>i. memory e (a + i)) [0..<16];
             dap = DAP_of_stream dapData;
             bps = (if isValid (mbr (bootImage m)) then ucast (bytesPerSector (mbr (bootImage m)))
                    else (512 :: 64 word));
             off = logicalBlockAddress dap * bps;
             sz = ucast (numberOfSectors dap) * bps;
             bs = readOffset (bootImage m) off sz;
             destination = getAddress (destinationSegment dap) (destinationOffset dap);
             e' = snd (extendedReadSectors m e)
         in take 3 (drop (length (trace e)) (trace e'))
              = [EngineRead a 16, DAPConstruct dapData, ImageReadOffset off sz]
          \<and> unat (numberOfSectors dap) = unat (memory e (a + 2)) + 256 * unat (memory e (a + 3))
          \<and> unat (destinationOffset dap) = unat (memory e (a + 4)) + 256 * unat (memory e (a + 5))
          \<and> unat (destinationSegment dap) = unat (memory e (a + 6)) + 256 * unat (memory e (a + 7))
          \<and> unat (logicalBlockAddress dap) =
               unat (memory e (a + 8)) + 256 * (unat (memory e (a + 9))
               + 256 * (unat (memory e (a + 10)) + 256 * (unat (memory e (a + 11))
               + 256 * (unat (memory e (a + 12)) + 256 * (unat (memory e (a + 13))
               + 256 * (unat (memory e (a + 14)) + 256 * unat (memory e (a + 15))))))))
          \<and> unat bps = (if isValid (mbr (bootImage m)) then unat (bytesPerSector (mbr (bootImage m)))
                        else 512)
          \<and> unat off = (unat (logicalBlockAddress dap) * unat bps) mod 2 ^ 64
          \<and> unat sz = unat (numberOfSectors dap) * unat bps
          \<and> destination = unat (destinationSegment dap) * 16 + unat (destinationOffset dap)
          \<and> (bs \<noteq> [] \<longrightarrow>
                (\<forall>i<length bs. memory e' (destination + i) = bs ! i)
              \<and> (\<forall>x. x < destination \<or> destination + length bs \<le> x \<longrightarrow> memory e' x = memory e x)
              \<and> trace e' = trace e @ [EngineRead a 16, DAPConstruct dapData,
                                       ImageReadOffset off sz, EngineWrite destination bs]
              \<and> cf e' = False \<and> ah e' = 0)
          \<and> (bs = [] \<longrightarrow>
                memory e' = memory e
              \<and> trace e' = trace e @ [EngineRead a 16, DAPConstruct dapData, ImageReadOffset off sz]
              \<and> cf e' = True \<and> ah e' = 1)"
proof -
  define a where "a = getAddress (ds e) (si e)"
  define dap where "dap = DAP_of_stream (map (\<lambda>i. memory e (a + i)) [0..<16])"
  define bps where "bps = (if isValid (mbr (bootImage m))
    then ucast (bytesPerSector (mbr (bootImage m))) else (512 :: 64 word))"
  define bs where "bs = readOffset (bootImage m) (logicalBlockAddress dap * bps)
    (ucast (numberOfSectors dap) * bps)"
  define destination where
    "destination = getAddress (destinationSegment dap) (destinationOffset dap)"
  define e3 where "e3 = called (ImageReadOffset (logicalBlockAddress dap * bps)
    (ucast (numberOfSectors dap) * bps))
    (called (DAPConstruct (map (\<lambda>i. memory e (a + i)) [0..<16])) (called (EngineRead a 16) e))"
  have path: "extendedReadSectors m e =
     (if bs = [] then extendedReadSectors_error e3
      else (True, set_ah 0 (set_cf False (engine_write destination bs e3))))"
    unfolding bs_def destination_def e3_def bps_def dap_def a_def
    by (rule extendedReadSectors_drive0 [OF assms])
  have calls: "trace e3 = trace e @ [EngineRead a 16,
      DAPConstruct (map (\<lambda>i. memory e (a + i)) [0..<16]),
      ImageReadOffset (logicalBlockAddress dap * bps) (ucast (numberOfSectors dap) * bps)]"
    and mem3: "memory e3 = memory e"
    by (simp_all add: e3_def called_fields)
  have first: "take 3 (drop (length (trace e)) (trace (snd (extendedReadSectors m e))))
      = [EngineRead a 16, DAPConstruct (map (\<lambda>i. memory e (a + i)) [0..<16]),
         ImageReadOffset (logicalBlockAddress dap * bps) (ucast (numberOfSectors dap) * bps)]"
    by (simp add: path extendedReadSectors_error_fields success_exit_fields
        engine_write_fields calls)
  note layout = DAP_layout [of "memory e" a, folded dap_def]
  have sector: "unat bps = (if isValid (mbr (bootImage m))
      then unat (bytesPerSector (mbr (bootImage m))) else 512)"
    by (simp add: bps_def unsigned_ucast_eq take_bit_nat_eq_self
        order_less_trans [OF unsigned_less])
  have off: "unat (logicalBlockAddress dap * bps) = (unat (logicalBlockAddress dap) * unat bps) mod 2 ^ 64"
    by (rule sector_arithmetic(1))
  have sz: "unat (ucast (numberOfSectors dap) * bps) = unat (numberOfSectors dap) * unat bps"
  proof (cases "isValid (mbr (bootImage m))")
    case True
    then have "bps = ucast (bytesPerSector (mbr (bootImage m)))"
      and "unat bps = unat (bytesPerSector (mbr (bootImage m)))"
      using sector by (simp_all add: bps_def)
    then show ?thesis
      by (simp only: sector_arithmetic(2))
  next
    case False
    then have "bps = 512" and "unat bps = 512"
      using sector by (simp_all add: bps_def)
    then show ?thesis
      by (simp only: sector_arithmetic(3))
  qed
  have dest: "destination = unat (destinationSegment dap) * 16 + unat (destinationOffset dap)"
    by (simp add: destination_def getAddress_def)
  have ok: "(\<forall>i<length bs. memory (snd (extendedReadSectors m e)) (destination + i) = bs ! i)
      \<and> (\<forall>x. x < destination \<or> destination + length bs \<le> x \<longrightarrow>
            memory (snd (extendedReadSectors m e)) x = memory e x)
      \<and> trace (snd (extendedReadSectors m e)) = trace e @ [EngineRead a 16,
           DAPConstruct (map (\<lambda>i. memory e (a + i)) [0..<16]),
           ImageReadOffset (logicalBlockAddress dap * bps) (ucast (numberOfSectors dap) * bps),
           EngineWrite destination bs]
      \<and> cf (snd (extendedReadSectors m e)) = False \<and> ah (snd (extendedReadSectors m e)) = 0"
    if "bs \<noteq> []"
    using that
    by (simp add: path success_exit_fields engine_write_fields calls mem3
        store_bytes_inside store_bytes_outside)
  have fail: "memory (snd (extendedReadSectors m e)) = memory e
      \<and> trace (snd (extendedReadSectors m e)) = trace e @ [EngineRead a 16,
           DAPConstruct (map (\<lambda>i. memory e (a + i)) [0..<16]),
           ImageReadOffset (logicalBlockAddress dap * bps) (ucast (numberOfSectors dap) * bps)]
      \<and> cf (snd (extendedReadSectors m e)) = True \<and> ah (snd (extendedReadSectors m e)) = 1"
    if "bs = []"
    using that by (simp add: path extendedReadSectors_error_fields calls mem3)
  show ?thesis
    unfolding Let_def
    using first layout sector off sz dest ok fail
    unfolding a_def dap_def bps_def bs_def destination_def
    by blast
qed

theorem extendedReadSectors_reads_by_DAP_witness:
  "dl ext_request = 0
   \<and> getAddress (ds ext_request) (si ext_request) = 0x500
   \<and> DAP_of_stream (map (\<lambda>i. memory ext_request (0x500 + i)) [0..<16])
       = \<lparr> dapSize = 16, dapZero = 0, numberOfSectors = 2, destinationOffset = 0,
           destinationSegment = 0x2000, logicalBlockAddress = 10 \<rparr>
   \<and> trace (snd (extendedReadSectors (machine_of full_image) ext_request))
       = [EngineRead 0x500 16,
          DAPConstruct [16, 0, 2, 0, 0, 0, 0x00, 0x20, 10, 0, 0, 0, 0, 0, 0, 0],
          ImageReadOffset 5120 1024,
          EngineWrite 0x20000 (replicate 1024 0x90)]
   \<and> memory (snd (extendedReadSectors (machine_of full_image) ext_request)) 0x20000 = 0x90
   \<and> memory (snd (extendedReadSectors (machine_of full_image) ext_request)) 0x20400 = 0
   \<and> cf (snd (extendedReadSectors (machine_of full_image) ext_request)) = False
   \<and> ah (snd (extendedReadSectors (machine_of full_image) ext_request)) = 0
   \<and> trace (snd (extendedReadSectors (machine_of empty_image) ext_request))
       = [EngineRead 0x500 16,
          DAPConstruct [16, 0, 2, 0, 0, 0, 0x00, 0x20, 10, 0, 0, 0, 0, 0, 0, 0],
          ImageReadOffset 5120 1024]
   \<and> cf (snd (extendedReadSectors (machine_of empty_image) ext_request)) = True
   \<and> ah (snd (extendedReadSectors (machine_of empty_image) ext_request)) = 1"
proof -
  have drive0: "dl ext_request = 0"
    by (simp add: request_defs dl_def)
  have addr: "getAddress (ds ext_request) (si ext_request) = 0x500"
    by (simp add: request_defs getAddress_def)
  have no_calls: "trace ext_request = []"
    by (simp add: request_defs)
  have packet: "map (\<lambda>i. memory ext_request (0x500 + i)) [0..<16]
      = [16, 0, 2, 0, 0, 0, 0x00, 0x20, 10, 0, 0, 0, 0, 0, 0, 0]"
    by (simp add: request_defs store_bytes_def upt_rec)
  have dap: "DAP_of_stream [16, 0, 2, 0, 0, 0, 0x00, 0x20, 10, 0, 0, 0, 0, 0, 0, 0]
      = \<lparr> dapSize = 16, dapZero = 0, numberOfSectors = 2, destinationOffset = 0,
          destinationSegment = 0x2000, logicalBlockAddress = 10 \<rparr>"
    by (simp add: DAP_of_stream_def le_field_def le_nat_def)
  have dest: "getAddress 0x2000 0 = 0x20000"
    by (simp add: getAddress_def)
  have full: "isValid (mbr (bootImage (machine_of full_image)))"
    "bytesPerSector (mbr (bootImage (machine_of full_image))) = 512"
    "readOffset (bootImage (machine_of full_image)) 5120 1024 = replicate 1024 0x90"
    by (simp_all add: request_defs)
  have none: "\<not> isValid (mbr (bootImage (machine_of empty_image)))"
    "readOffset (bootImage (machine_of empty_image)) 5120 1024 = []"
    by (simp_all add: request_defs)
  have untouched: "memory ext_request 0x20400 = 0"
    by (simp add: request_defs store_bytes_def)
  note ok = extendedReadSectors_reads_by_DAP [OF drive0, of "machine_of full_image",
      unfolded Let_def addr packet dap]
  note ko = extendedReadSectors_reads_by_DAP [OF drive0, of "machine_of empty_image",
      unfolded Let_def addr packet dap]
  have written: "(\<forall>i<1024. memory (snd (extendedReadSectors (machine_of full_image) ext_request))
          (0x20000 + i) = 0x90)
      \<and> (\<forall>x. x < 0x20000 \<or> 0x20400 \<le> x \<longrightarrow>
            memory (snd (extendedReadSectors (machine_of full_image) ext_request)) x
            = memory ext_request x)"
    and ok_trace: "trace (snd (extendedReadSectors (machine_of full_image) ext_request))
       = [EngineRead 0x500 16,
          DAPConstruct [16, 0, 2, 0, 0, 0, 0x00, 0x20, 10, 0, 0, 0, 0, 0, 0, 0],
          ImageReadOffset 5120 1024,
          EngineWrite 0x20000 (replicate 1024 0x90)]"
    and ok_flags: "cf (snd (extendedReadSectors (machine_of full_image) ext_request)) = False"
      "ah (snd (extendedReadSectors (machine_of full_image) ext_request)) = 0"
    using ok by (simp_all add: full dest no_calls)
  from written have "(0::nat) < 1024 \<longrightarrow>
      memory (snd (extendedReadSectors (machine_of full_image) ext_request)) (0x20000 + 0) = 0x90"
    by blast
  then have ok_first:
    "memory (snd (extendedReadSectors (machine_of full_image) ext_request)) 0x20000 = 0x90"
    by simp
  from written have "(0x20400::nat) < 0x20000 \<or> (0x20400::nat) \<le> 0x20400 \<longrightarrow>
      memory (snd (extendedReadSectors (machine_of full_image) ext_request)) 0x20400
      = memory ext_request 0x20400"
    by blast
  then have ok_after:
    "memory (snd (extendedReadSectors (machine_of full_image) ext_request)) 0x20400 = 0"
    by (simp add: untouched)
  have ko_all: "trace (snd (extendedReadSectors (machine_of empty_image) ext_request))
       = [EngineRead 0x500 16,
          DAPConstruct [16, 0, 2, 0, 0, 0, 0x00, 0x20, 10, 0, 0, 0, 0, 0, 0, 0],
          ImageReadOffset 5120 1024]"
      "cf (snd (extendedReadSectors (machine_of empty_image) ext_request)) = True"
      "ah (snd (extendedReadSectors (machine_of empty_image) ext_request)) = 1"
    using ko by (simp_all add: none no_calls)
  show ?thesis
    using drive0 addr packet dap ok_trace ok_flags ok_first ok_after ko_all by simp
qed

text \<open>
  C2 as stated fails: with the logical block address 2^55 and 512-byte sectors the product
  is 2^64, far outside the floppy image, but the 64-bit product is 0, so the handler asks
  the image for 512 bytes at offset 0, writes them to 2000:0000 and reports success.
\<close>

theorem extendedReadSectors_offset_wraps_counterexample:
  "dl ext_request_far = 0
   \<and> isValid (mbr (bootImage (machine_of floppy_image))) = True
   \<and> bytesPerSector (mbr (bootImage (machine_of floppy_image))) = 512
   \<and> DAP_of_stream (map (\<lambda>i. memory ext_request_far
         (getAddress (ds ext_request_far) (si ext_request_far) + i)) [0..<16])
       = \<lparr> dapSize = 16, dapZero = 0, numberOfSectors = 1, destinationOffset = 0,
           destinationSegment = 0x2000, logicalBlockAddress = 0x80000000000000 \<rparr>
   \<and> unat (0x80000000000000 :: 64 word) * 512 = 2 ^ 64
   \<and> trace (snd (extendedReadSectors (machine_of floppy_image) ext_request_far))
       = [EngineRead 0x500 16,
          DAPConstruct [16, 0, 1, 0, 0, 0, 0x00, 0x20, 0, 0, 0, 0, 0, 0, 0x80, 0],
          ImageReadOffset 0 512,
          EngineWrite 0x20000 (replicate 512 0x90)]
   \<and> unat (0 :: 64 word) \<noteq> unat (0x80000000000000 :: 64 word) * 512
   \<and> cf (snd (extendedReadSectors (machine_of floppy_image) ext_request_far)) = False
   \<and> ah (snd (extendedReadSectors (machine_of floppy_image) ext_request_far)) = 0"
proof -
  have drive0: "dl ext_request_far = 0"
    by (simp add: ext_request_far_def dl_def)
  have addr: "getAddress (ds ext_request_far) (si ext_request_far) = 0x500"
    by (simp add: ext_request_far_def getAddress_def)
  have packet: "map (\<lambda>i. memory ext_request_far (0x500 + i)) [0..<16]
      = [16, 0, 1, 0, 0, 0, 0x00, 0x20, 0, 0, 0, 0, 0, 0, 0x80, 0]"
    by (simp add: ext_request_far_def store_bytes_def upt_rec)
  have dap: "DAP_of_stream [16, 0, 1, 0, 0, 0, 0x00, 0x20, 0, 0, 0, 0, 0, 0, 0x80, 0]
      = \<lparr> dapSize = 16, dapZero = 0, numberOfSectors = 1, destinationOffset = 0,
          destinationSegment = 0x2000, logicalBlockAddress = 0x80000000000000 \<rparr>"
    by (simp add: DAP_of_stream_def le_field_def le_nat_def)
  have img: "isValid (mbr (bootImage (machine_of floppy_image))) = True"
    "bytesPerSector (mbr (bootImage (machine_of floppy_image))) = 512"
    by (simp_all add: machine_of_def floppy_image_def bootImage_def)
  have wrap: "(18446744073709551616 :: 64 word) = 0"
    by simp
  have data: "readOffset (bootImage (machine_of floppy_image)) 0 512 = replicate 512 0x90"
    by (simp add: machine_of_def floppy_image_def bootImage_def)
  have dest: "getAddress 0x2000 0 = 0x20000"
    by (simp add: getAddress_def)
  have no_calls: "trace ext_request_far = []"
    by (simp add: ext_request_far_def)
  have run: "extendedReadSectors (machine_of floppy_image) ext_request_far =
     (True, set_ah 0 (set_cf False (engine_write 0x20000 (replicate 512 0x90)
        (called (ImageReadOffset 0 512)
          (called (DAPConstruct [16, 0, 1, 0, 0, 0, 0x00, 0x20, 0, 0, 0, 0, 0, 0, 0x80, 0])
            (called (EngineRead 0x500 16) ext_request_far))))))"
    by (simp add: extendedReadSectors_drive0 [OF drive0] addr packet dap img wrap data dest)
  have out: "trace (snd (extendedReadSectors (machine_of floppy_image) ext_request_far))
       = [EngineRead 0x500 16,
          DAPConstruct [16, 0, 1, 0, 0, 0, 0x00, 0x20, 0, 0, 0, 0, 0, 0, 0x80, 0],
          ImageReadOffset 0 512,
          EngineWrite 0x20000 (replicate 512 0x90)]"
    "cf (snd (extendedReadSectors (machine_of floppy_image) ext_request_far)) = False"
    "ah (snd (extendedReadSectors (machine_of floppy_image) ext_request_far)) = 0"
    by (simp_all add: run success_exit_fields engine_write_fields called_fields no_calls)
  show ?thesis
    using drive0 img out by (simp add: addr packet dap)
qed

end
